theory Spec2Isabelle
  imports Complex_Main "HOL-Library.Signed_Division"
begin

section \<open>XPMP2 2-D routines: projection of aircraft positions and label drawing\<close>

text \<open>
  This theory embeds \<^verbatim>\<open>src/2D.cpp\<close>. Conventions of the embedding:

  \<^item> A \<^verbatim>\<open>float\<close> that the file reads from the host, from an aircraft or from the
    configuration, or hands on to the host, is a finite value, modelled as a
    \<^typ>\<open>real\<close>.
  \<^item> Inside \<^verbatim>\<open>ConvertTo2d\<close>, whose results are a truth value and two integers, a
    \<^verbatim>\<open>float\<close> is a value of the type \<open>fp\<close>: a number, a negative zero, an infinity
    or a NaN. The arithmetic on these values (what each multiplication, addition and
    division returns, with its rounding, overflow and underflow) is a parameter,
    the \<open>Machine\<close>: nothing is assumed of it, so what is proved of \<^verbatim>\<open>ConvertTo2d\<close>
    holds for the single-precision arithmetic of every machine. Comparisons are
    exact and are defined here.
  \<^item> A C \<^verbatim>\<open>int\<close> in the label pass is modelled as an \<^typ>\<open>int\<close>; C leaves signed
    overflow undefined, and nothing below depends on it. Integer division is C's,
    truncating towards zero (\<open>sdiv\<close>). The conversion of the \<^verbatim>\<open>long\<close> that
    \<^verbatim>\<open>std::lround\<close> returns to \<^verbatim>\<open>int\<close> wraps to 32 bits (\<open>int_of_long\<close>).
  \<^item> A \<^verbatim>\<open>float\<close> array is a function from the index to the element; only the
    indices of the array are ever read.
  \<^item> Calls into the host (X-Plane SDK, OpenGL) and into the log are recorded as a list
    of events in the order the code makes them.
\<close>

subsection \<open>Data\<close>

type_synonym cfloat = real
type_synonym float_array = "nat \<Rightarrow> cfloat"

text \<open>
  The values of a \<^verbatim>\<open>float\<close>: \<open>Finite r\<close> is the number \<open>r\<close> (\<open>Finite 0\<close> the
  positive zero), \<open>NegZero\<close> the negative zero, then the two infinities, and NaN.
\<close>

datatype fp = Finite real | NegZero | PosInf | NegInf | NaN

type_synonym fp_array = "nat \<Rightarrow> fp"

text \<open>The number a \<^verbatim>\<open>float\<close> value stands for; none for an infinity and for NaN.\<close>

fun number :: "fp \<Rightarrow> real option" where
  "number (Finite r) = Some r"
| "number NegZero = Some 0"
| "number PosInf = None"
| "number NegInf = None"
| "number NaN = None"

text \<open>
  The comparison \<^verbatim>\<open><=\<close> of two \<^verbatim>\<open>float\<close> values: that of the numbers (the two
  zeros are equal), the infinities below and above every number, and false whenever
  an operand is NaN. Comparing with a \<^verbatim>\<open>double\<close> constant, as in
  \<^verbatim>\<open>afNdc[2] <= 1.0\<close>, converts the \<^verbatim>\<open>float\<close> exactly and compares the same way.
\<close>

definition fp_le :: "fp \<Rightarrow> fp \<Rightarrow> bool" where
  "fp_le a b =
     (case (number a, number b) of
        (Some r, Some s) \<Rightarrow> r \<le> s
      | (Some r, None) \<Rightarrow> b = PosInf
      | (None, Some s) \<Rightarrow> a = NegInf
      | (None, None) \<Rightarrow> (a = NegInf \<and> b \<noteq> NaN) \<or> (b = PosInf \<and> a \<noteq> NaN))"

text \<open>
  The machine the code runs on: its single-precision multiplication, addition and
  division, the largest \<^verbatim>\<open>long\<close>, and the \<^verbatim>\<open>long\<close> that \<^verbatim>\<open>std::lround\<close> returns
  where the C standard leaves its result unspecified (the argument is an infinity or
  NaN, or the rounded value is no \<^verbatim>\<open>long\<close>).
\<close>

record Machine =
  fp_mul :: "fp \<Rightarrow> fp \<Rightarrow> fp"
  fp_add :: "fp \<Rightarrow> fp \<Rightarrow> fp"
  fp_div :: "fp \<Rightarrow> fp \<Rightarrow> fp"
  LONG_MAX :: int
  lround_unspecified :: "fp \<Rightarrow> int"

text \<open>The file's static variables that \<^verbatim>\<open>read_matrices\<close> updates once per cycle.\<close>

record FrameState =
  gMatrixWrld :: float_array
  gMatrixProj :: float_array
  gScreenW :: cfloat
  gScreenH :: cfloat
  gFOV :: cfloat

text \<open>
  A C++ exception that a call into another part of the library may throw, with its
  message.
\<close>

datatype cpp_exception = Exception string

text \<open>
  What the file reads of a CSL model: \<^verbatim>\<open>GetDoc8643().wtc\<close>, the wake-turbulence
  category.
\<close>

record CSLModel =
  wtc :: string

text \<open>
  What the file reads of an \<^verbatim>\<open>Aircraft\<close>. The class is declared outside this
  file; each of its member functions called here either returns its value (\<open>Inr\<close>) or
  throws (\<open>Inl\<close>). \<^verbatim>\<open>GetModel()\<close> returns a pointer, \<open>None\<close> for \<^verbatim>\<open>nullptr\<close>.
\<close>

record Aircraft =
  IsRendered :: "cpp_exception + bool"
  ShallDrawLabel :: "cpp_exception + bool"
  GetCameraDist :: "cpp_exception + cfloat"
  GetModel :: "cpp_exception + CSLModel option"
  drawInfo_x :: cfloat
  drawInfo_y :: cfloat
  drawInfo_z :: cfloat
  label :: string
  subLabel :: string
  colLabel :: float_array
  colBackground :: float_array

text \<open>The three-way configuration switch of \<^verbatim>\<open>glob.eLabelOverride\<close>.\<close>

datatype SwitchCfg = SWITCH_CFG_OFF | SWITCH_CFG_ON | SWITCH_CFG_AUTO

text \<open>
  What the file reads and writes of the global configuration object \<^verbatim>\<open>glob\<close>.
  \<open>UsingModernGraphicsDriver\<close> is the value its member function of that name returns.
  \<open>mapAc\<close> is a \<^verbatim>\<open>std::map\<close> from the aircraft's id to the aircraft: its entries
  in the order the loop visits them.
\<close>

record Global =
  bDrawLabels :: bool
  eLabelOverride :: SwitchCfg
  bLabelCutOffAtVisibility :: bool
  maxLabelDist :: cfloat
  UsingModernGraphicsDriver :: bool
  mapAc :: "(nat \<times> Aircraft) list"

text \<open>
  What the host returns during one label pass: the values of the data refs, the zoom
  of \<^verbatim>\<open>XPLMReadCameraPosition\<close>, and the width \<^verbatim>\<open>XPLMMeasureString\<close> gives for a
  text, as the \<^verbatim>\<open>int\<close> the code stores it in. \<open>drVisibility\<close> tells whether the
  handle of that name is set (\<^verbatim>\<open>TwoDInit\<close> found one of the two visibility data refs).
\<close>

record XPlane =
  world_matrix :: float_array
  projection_matrix_3d :: float_array
  window_width :: int
  window_height :: int
  field_of_view_deg :: cfloat
  drVisibility :: bool
  visibility_effective_m :: cfloat
  camera_zoom :: cfloat
  MeasureString :: "string \<Rightarrow> int"

text \<open>The calls the file makes into the host, into OpenGL and into the log.\<close>

datatype dataref =
  drMatrixWrld | drMatrixProj | drScreenWidth | drScreenHeight | drVisibilityRef | drFieldOfView

datatype event =
    XPLMGetDatavf dataref
  | XPLMGetDatai dataref
  | XPLMGetDataf dataref
  | XPLMReadCameraPosition
  | XPLMMeasureString string
  | XPLMSetGraphicsState int int int int int int int
  | glColor4f cfloat cfloat cfloat cfloat
  | glBegin_GL_QUADS
  | glVertex2f cfloat cfloat
  | glEnd
  | XPLMDrawString float_array int int string
  | LOG_MSG_exception nat cpp_exception

subsection \<open>2-D projection calculations\<close>

text \<open>
  \<^verbatim>\<open>mult_matrix_vec(dst, m, v)\<close>: the four assignments to \<^verbatim>\<open>dst[0..3]\<close>; the other
  elements of \<open>dst\<close> stay as they were. Each right-hand side is a sum of four
  products, added from left to right.
\<close>

definition mult_matrix_vec :: "Machine \<Rightarrow> fp_array \<Rightarrow> fp_array \<Rightarrow> fp_array \<Rightarrow> fp_array" where
  "mult_matrix_vec mc dst m v =
     (let mul = fp_mul mc; add = fp_add mc
      in dst
        (0 := add (add (add (mul (v 0) (m 0)) (mul (v 1) (m 4))) (mul (v 2) (m 8))) (mul (v 3) (m 12)),
         1 := add (add (add (mul (v 0) (m 1)) (mul (v 1) (m 5))) (mul (v 2) (m 9))) (mul (v 3) (m 13)),
         2 := add (add (add (mul (v 0) (m 2)) (mul (v 1) (m 6))) (mul (v 2) (m 10))) (mul (v 3) (m 14)),
         3 := add (add (add (mul (v 0) (m 3)) (mul (v 1) (m 7))) (mul (v 2) (m 11))) (mul (v 3) (m 15))))"

text \<open>
  \<^verbatim>\<open>read_matrices()\<close>: sixteen elements of each matrix, the screen size converted from
  \<^verbatim>\<open>int\<close>, the field of view; with the host calls it makes.
\<close>

definition read_matrices :: "XPlane \<Rightarrow> FrameState \<Rightarrow> FrameState \<times> event list" where
  "read_matrices xp fs =
     (fs\<lparr>gMatrixWrld := (\<lambda>i. if i < 16 then world_matrix xp i else gMatrixWrld fs i),
         gMatrixProj := (\<lambda>i. if i < 16 then projection_matrix_3d xp i else gMatrixProj fs i),
         gScreenW := of_int (window_width xp),
         gScreenH := of_int (window_height xp),
         gFOV := field_of_view_deg xp\<rparr>,
      [XPLMGetDatavf drMatrixWrld, XPLMGetDatavf drMatrixProj,
       XPLMGetDatai drScreenWidth, XPLMGetDatai drScreenHeight,
       XPLMGetDataf drFieldOfView])"

text \<open>
  The integer \<^verbatim>\<open>std::lround\<close> specifies for a number: the nearest integer, halfway
  cases away from zero.
\<close>

definition lround :: "real \<Rightarrow> int" where
  "lround x = (if 0 \<le> x then \<lfloor>x + 1 / 2\<rfloor> else \<lceil>x - 1 / 2\<rceil>)"

text \<open>
  \<^verbatim>\<open>std::lround\<close> on a \<^verbatim>\<open>float\<close>, returning a \<^verbatim>\<open>long\<close>: the rounded number where
  that is a \<^verbatim>\<open>long\<close>, and the machine's unspecified result otherwise.
\<close>

definition std_lround :: "Machine \<Rightarrow> fp \<Rightarrow> int" where
  "std_lround mc v =
     (case number v of
        None \<Rightarrow> lround_unspecified mc v
      | Some r \<Rightarrow>
          if - LONG_MAX mc - 1 \<le> lround r \<and> lround r \<le> LONG_MAX mc then lround r
          else lround_unspecified mc v)"

text \<open>
  The conversion \<^verbatim>\<open>(int)\<close> of a \<^verbatim>\<open>long\<close>: the value itself where it is an
  \<^verbatim>\<open>int\<close> of 32 bits, wrapped modulo \<open>2^32\<close> into that range otherwise.
\<close>

definition int_of_long :: "int \<Rightarrow> int" where
  "int_of_long n = (n + 2147483648) mod 4294967296 - 2147483648"

text \<open>
  Lines 94 to 97 of \<^verbatim>\<open>ConvertTo2d\<close>:
  \<^verbatim>\<open>afNdc[3] = 1.0f / afNdc[3]; afNdc[0] *= afNdc[3]; afNdc[1] *= afNdc[3]; afNdc[2] *= afNdc[3];\<close>
\<close>

definition perspective_divide :: "Machine \<Rightarrow> fp_array \<Rightarrow> fp_array" where
  "perspective_divide mc afNdc =
     (let afNdc = afNdc(3 := fp_div mc (Finite 1) (afNdc 3));
          afNdc = afNdc(0 := fp_mul mc (afNdc 0) (afNdc 3));
          afNdc = afNdc(1 := fp_mul mc (afNdc 1) (afNdc 3));
          afNdc = afNdc(2 := fp_mul mc (afNdc 2) (afNdc 3))
      in afNdc)"

text \<open>
  Lines 87 to 97 of \<^verbatim>\<open>ConvertTo2d\<close>: the normalized device coordinates of the point,
  the array \<^verbatim>\<open>afNdc\<close> as it is before the pixel is computed. The local arrays
  \<^verbatim>\<open>afEye\<close> and \<^verbatim>\<open>afNdc\<close> start uninitialised; every element that is read has been
  assigned before, so their initial content (here NaN) is never seen.
\<close>

definition ndc_of :: "Machine \<Rightarrow> FrameState \<Rightarrow> cfloat \<Rightarrow> cfloat \<Rightarrow> cfloat \<Rightarrow> fp_array" where
  "ndc_of mc fs x y z =
     (let afPos = (\<lambda>_. NaN)(0 := Finite x, 1 := Finite y, 2 := Finite z, 3 := Finite 1);
          afEye = mult_matrix_vec mc (\<lambda>_. NaN) (\<lambda>i. Finite (gMatrixWrld fs i)) afPos;
          afNdc = mult_matrix_vec mc (\<lambda>_. NaN) (\<lambda>i. Finite (gMatrixProj fs i)) afEye
      in perspective_divide mc afNdc)"

text \<open>
  The result of \<^verbatim>\<open>ConvertTo2d\<close>: \<open>Converted v x y\<close> when it returns \<open>v\<close> with
  \<^verbatim>\<open>out_x\<close>, \<^verbatim>\<open>out_y\<close> set to \<open>x\<close>, \<open>y\<close>.
\<close>

datatype Conv2d = Converted bool int int

fun visible :: "Conv2d \<Rightarrow> bool" where
  "visible (Converted v x y) = v"

fun out_xy :: "Conv2d \<Rightarrow> int \<times> int" where
  "out_xy (Converted v x y) = (x, y)"

text \<open>
  The pixel coordinate of line 99 and of line 100: for the screen size \<open>screen\<close> and
  the coordinate \<open>ndc\<close>, \<^verbatim>\<open>(int)std::lround(screen * (ndc * 0.5f + 0.5f))\<close>.
\<close>

definition pixel_of :: "Machine \<Rightarrow> cfloat \<Rightarrow> fp \<Rightarrow> int" where
  "pixel_of mc screen ndc =
     int_of_long (std_lround mc
       (fp_mul mc (Finite screen) (fp_add mc (fp_mul mc ndc (Finite 0.5)) (Finite 0.5))))"

text \<open>\<^verbatim>\<open>ConvertTo2d(x, y, z, out_x, out_y)\<close>.\<close>

definition ConvertTo2d ::
  "Machine \<Rightarrow> FrameState \<Rightarrow> Global \<Rightarrow> cfloat \<Rightarrow> cfloat \<Rightarrow> cfloat \<Rightarrow> Conv2d" where
  "ConvertTo2d mc fs glob x y z =
     (let afNdc = ndc_of mc fs x y z
      in Converted
           (if UsingModernGraphicsDriver glob
            then fp_le (Finite 0) (afNdc 2) \<and> fp_le (afNdc 2) (Finite 1)
            else fp_le (Finite (- 1)) (afNdc 2) \<and> fp_le (afNdc 2) (Finite 1))
           (pixel_of mc (gScreenW fs) (afNdc 0))
           (pixel_of mc (gScreenH fs) (afNdc 1)))"

text \<open>
  \<^verbatim>\<open>DrawTranslucentBox(left, top, right, bottom, r, g, b, a)\<close>; the parameter
  \<^verbatim>\<open>top\<close> is written \<open>top'\<close>.
\<close>

definition DrawTranslucentBox ::
  "cfloat \<Rightarrow> cfloat \<Rightarrow> cfloat \<Rightarrow> cfloat \<Rightarrow> cfloat \<Rightarrow> cfloat \<Rightarrow> cfloat \<Rightarrow> cfloat \<Rightarrow> event list" where
  "DrawTranslucentBox left top' right bottom r g b a =
     [XPLMSetGraphicsState 0 0 0 0 1 1 0,
      glColor4f r g b a,
      glBegin_GL_QUADS,
      glVertex2f left bottom,
      glVertex2f left top',
      glVertex2f right top',
      glVertex2f right bottom,
      glEnd]"

subsection \<open>Drawing control\<close>

text \<open>
  Lines 158 to 160 of \<^verbatim>\<open>TwoDDrawLabels\<close>: the maximum distance for label drawing.
  \<^verbatim>\<open>std::min\<close> is \<open>min\<close> on finite values.
\<close>

definition calc_maxLabelDist :: "Global \<Rightarrow> XPlane \<Rightarrow> cfloat" where
  "calc_maxLabelDist glob xp =
     min (maxLabelDist glob)
         (if bLabelCutOffAtVisibility glob \<and> drVisibility xp
          then visibility_effective_m xp else maxLabelDist glob)
     * camera_zoom xp"

text \<open>
  The host calls behind lines 157 to 160: the camera position is read, and the
  visibility only when the condition of the conditional expression holds.
\<close>

definition maxLabelDist_events :: "Global \<Rightarrow> XPlane \<Rightarrow> event list" where
  "maxLabelDist_events glob xp =
     XPLMReadCameraPosition #
     (if bLabelCutOffAtVisibility glob \<and> drVisibility xp
      then [XPLMGetDataf drVisibilityRef] else [])"

text \<open>
  \<^verbatim>\<open>wtc[0]\<close>: the first character of the wake-turbulence category, the terminating
  NUL of an empty one.
\<close>

definition wtc_0 :: "CSLModel \<Rightarrow> char" where
  "wtc_0 mdl = (case wtc mdl of [] \<Rightarrow> CHR 0x00 | c # _ \<Rightarrow> c)"

text \<open>Lines 180 to 188: the vertical label offset.\<close>

definition vertLabelOfs :: "CSLModel option \<Rightarrow> cfloat" where
  "vertLabelOfs pCSLMdl =
     (case pCSLMdl of
        None \<Rightarrow> 10
      | Some mdl \<Rightarrow>
          if wtc_0 mdl = CHR ''L'' then 6
          else if wtc_0 mdl = CHR ''H'' then 11
          else 10)"

text \<open>
  Lines 197 to 220, from \<^verbatim>\<open>// Finally: Draw the label\<close>: the label drawn at the
  pixel \<open>(x, y)\<close>. The \<^verbatim>\<open>int\<close> arguments of \<^verbatim>\<open>DrawTranslucentBox\<close> are converted to
  \<^verbatim>\<open>float\<close>.
\<close>

definition draw_label :: "XPlane \<Rightarrow> Aircraft \<Rightarrow> int \<Rightarrow> int \<Rightarrow> event list" where
  "draw_label xp ac x y =
     (let labelWidth = MeasureString xp (label ac);
          subLabelWidth = MeasureString xp (subLabel ac);
          boxWidth = (if subLabelWidth > labelWidth then subLabelWidth else labelWidth);
          boxXStart = x - (boxWidth sdiv 2);
          labelX = boxXStart + (boxWidth - labelWidth) sdiv 2
      in [XPLMMeasureString (label ac), XPLMMeasureString (subLabel ac)] @
         DrawTranslucentBox (of_int (boxXStart - 5)) (of_int (y + 15))
           (of_int (boxXStart + boxWidth + 5)) (of_int (y - 10))
           (colBackground ac 0) (colBackground ac 1) (colBackground ac 2) (colBackground ac 3) @
         [XPLMDrawString (colLabel ac) labelX y (label ac)] @
         (if subLabel ac \<noteq> []
          then let gray = (\<lambda>_. 0)(0 := 1, 1 := 1, 2 := 1, 3 := 0.6);
                   subLabelX = boxXStart + (boxWidth - subLabelWidth) sdiv 2
               in [XPLMDrawString gray subLabelX (y - 25) (subLabel ac)]
          else []))"

text \<open>
  The body of the \<^verbatim>\<open>try\<close> block for one aircraft, lines 167 to 220: \<open>Inl\<close> the
  exception that leaves it, \<open>Inr\<close> the host calls it made. The member functions are
  called in the order of the source, \<^verbatim>\<open>ShallDrawLabel()\<close> only for a rendered
  aircraft; every one of them comes before the first host call.
\<close>

definition TwoDDrawLabels_try ::
  "Machine \<Rightarrow> XPlane \<Rightarrow> Global \<Rightarrow> FrameState \<Rightarrow> cfloat \<Rightarrow> Aircraft \<Rightarrow> cpp_exception + event list" where
  "TwoDDrawLabels_try mc xp glob fs maxLabelDist' ac =
     (case IsRendered ac of Inl e \<Rightarrow> Inl e | Inr rendered \<Rightarrow>
      if \<not> rendered then Inr [] else
      case ShallDrawLabel ac of Inl e \<Rightarrow> Inl e | Inr shall \<Rightarrow>
      if \<not> (shall \<or> eLabelOverride glob = SWITCH_CFG_ON) then Inr [] else
      case GetCameraDist ac of Inl e \<Rightarrow> Inl e | Inr camDist \<Rightarrow>
      if camDist > maxLabelDist' then Inr [] else
      case GetModel ac of Inl e \<Rightarrow> Inl e | Inr pCSLMdl \<Rightarrow>
      case ConvertTo2d mc fs glob (drawInfo_x ac) (drawInfo_y ac + vertLabelOfs pCSLMdl)
             (drawInfo_z ac) of
        Converted vis x y \<Rightarrow> if \<not> vis then Inr [] else Inr (draw_label xp ac x y))"

text \<open>
  Modelled from the spec: the macro \<^verbatim>\<open>CATCH_AC\<close> is defined outside this file. A
  failure of one aircraft is caught and logged with the aircraft's identity, and the
  pass goes on with the next aircraft.
\<close>

definition CATCH_AC :: "nat \<Rightarrow> cpp_exception \<Rightarrow> event list" where
  "CATCH_AC acId e = [LOG_MSG_exception acId e]"

text \<open>One round of the loop over \<^verbatim>\<open>glob.mapAc\<close>: the calls made for one aircraft.\<close>

definition TwoDDrawLabels_ac ::
  "Machine \<Rightarrow> XPlane \<Rightarrow> Global \<Rightarrow> FrameState \<Rightarrow> cfloat \<Rightarrow> nat \<times> Aircraft \<Rightarrow> event list" where
  "TwoDDrawLabels_ac mc xp glob fs maxLabelDist' p =
     (case TwoDDrawLabels_try mc xp glob fs maxLabelDist' (snd p) of
        Inl e \<Rightarrow> CATCH_AC (fst p) e
      | Inr evs \<Rightarrow> evs)"

text \<open>
  The loop over \<^verbatim>\<open>glob.mapAc\<close>: for every entry in turn, its key with the calls
  made for it.
\<close>

fun TwoDDrawLabels_loop ::
  "Machine \<Rightarrow> XPlane \<Rightarrow> Global \<Rightarrow> FrameState \<Rightarrow> cfloat \<Rightarrow> (nat \<times> Aircraft) list \<Rightarrow> (nat \<times> event list) list" where
  "TwoDDrawLabels_loop mc xp glob fs maxLabelDist' [] = []"
| "TwoDDrawLabels_loop mc xp glob fs maxLabelDist' (p # ps) =
     (fst p, TwoDDrawLabels_ac mc xp glob fs maxLabelDist' p) #
     TwoDDrawLabels_loop mc xp glob fs maxLabelDist' ps"

text \<open>
  What one call of \<^verbatim>\<open>TwoDDrawLabels\<close> does: the frame state it leaves, the calls it
  makes before the loop, and the calls of the loop, aircraft by aircraft.
\<close>

record LabelPass =
  frame :: FrameState
  setup_events :: "event list"
  ac_events :: "(nat \<times> event list) list"

definition TwoDDrawLabels :: "Machine \<Rightarrow> XPlane \<Rightarrow> Global \<Rightarrow> FrameState \<Rightarrow> LabelPass" where
  "TwoDDrawLabels mc xp glob fs =
     (if \<not> bDrawLabels glob \<or> eLabelOverride glob = SWITCH_CFG_OFF
      then \<lparr>frame = fs, setup_events = [], ac_events = []\<rparr>
      else
        let (fs', read_events) = read_matrices xp fs;
            maxLabelDist' = calc_maxLabelDist glob xp
        in \<lparr>frame = fs',
            setup_events = read_events @ maxLabelDist_events glob xp,
            ac_events = TwoDDrawLabels_loop mc xp glob fs' maxLabelDist' (mapAc glob)\<rparr>)"

text \<open>All calls of a pass, in the order they are made.\<close>

definition all_events :: "LabelPass \<Rightarrow> event list" where
  "all_events r = setup_events r @ concat (map snd (ac_events r))"

text \<open>The calls a pass made for the aircraft with the id \<open>acId\<close>.\<close>

definition events_for :: "LabelPass \<Rightarrow> nat \<Rightarrow> event list" where
  "events_for r acId = concat (map snd (filter (\<lambda>p. fst p = acId) (ac_events r)))"

text \<open>
  The calls that draw: the quad of \<^verbatim>\<open>DrawTranslucentBox\<close> and the texts of
  \<^verbatim>\<open>XPLMDrawString\<close>.
\<close>

fun is_draw_call :: "event \<Rightarrow> bool" where
  "is_draw_call (XPLMSetGraphicsState a b c d e f g) = True"
| "is_draw_call (glColor4f r g b a) = True"
| "is_draw_call glBegin_GL_QUADS = True"
| "is_draw_call (glVertex2f x y) = True"
| "is_draw_call glEnd = True"
| "is_draw_call (XPLMDrawString col x y s) = True"
| "is_draw_call _ = False"

subsection \<open>General API functions\<close>

text \<open>
  Modelled from the spec: the constant \<^verbatim>\<open>M_per_NM\<close> is defined outside this file;
  one nautical mile is 1852 m.
\<close>

definition M_per_NM :: cfloat where
  "M_per_NM = 1852"

text \<open>
  \<^verbatim>\<open>XPMPSetAircraftLabelDist(_dist_nm, _bCutOffAtVisibility)\<close>; \<^verbatim>\<open>std::max\<close> is
  \<open>max\<close> on finite values.
\<close>

definition XPMPSetAircraftLabelDist :: "cfloat \<Rightarrow> bool \<Rightarrow> Global \<Rightarrow> Global" where
  "XPMPSetAircraftLabelDist dist_nm bCutOffAtVisibility glob =
     glob\<lparr>bLabelCutOffAtVisibility := bCutOffAtVisibility,
          maxLabelDist := max dist_nm 1 * M_per_NM\<rparr>"

subsection \<open>The projection as the specification words it\<close>


text \<open>The homogeneous vector \<open>(x, y, z, 1)\<close>.\<close>

definition homogeneous :: "real \<Rightarrow> real \<Rightarrow> real \<Rightarrow> nat \<Rightarrow> real" where
  "homogeneous x y z = (\<lambda>j. [x, y, z, 1] ! j)"

text \<open>Row vector times matrix in exact arithmetic: \<open>dst[i] = \<Sum>\<^sub>j v[j] * m[j*4+i]\<close>.\<close>

definition row_times_matrix :: "(nat \<Rightarrow> real) \<Rightarrow> (nat \<Rightarrow> real) \<Rightarrow> nat \<Rightarrow> real" where
  "row_times_matrix v m = (\<lambda>i. \<Sum>j<4. v j * m (j * 4 + i))"

text \<open>The nearest integer of a number, halfway cases away from zero.\<close>

definition round_half_away :: "real \<Rightarrow> int" where
  "round_half_away r = (if r < 0 then - \<lfloor>- r + 1 / 2\<rfloor> else \<lfloor>r + 1 / 2\<rfloor>)"

text \<open>
  The pixel coordinates as C2 words them, in exact arithmetic: the homogeneous vector
  times the world matrix, the result times the projection matrix, \<open>x'\<close> and \<open>y'\<close>
  divided by \<open>w'\<close>, then \<open>round (screenWidth * (ndcX * 0.5 + 0.5))\<close> and
  \<open>round (screenHeight * (ndcY * 0.5 + 0.5))\<close>. Division by \<open>w' = 0\<close> is undefined:
  \<open>None\<close>.
\<close>

definition project_pixels_exact :: "FrameState \<Rightarrow> real \<Rightarrow> real \<Rightarrow> real \<Rightarrow> (int \<times> int) option" where
  "project_pixels_exact fs x y z =
     (let eye = row_times_matrix (homogeneous x y z) (gMatrixWrld fs);
          clip = row_times_matrix eye (gMatrixProj fs)
      in if clip 3 = 0 then None
         else
           let ndcX = clip 0 / clip 3;
               ndcY = clip 1 / clip 3
           in Some (round_half_away (gScreenW fs * (ndcX * 0.5 + 0.5)),
                    round_half_away (gScreenH fs * (ndcY * 0.5 + 0.5))))"

text \<open>
  Row vector times matrix in the arithmetic of a machine: the four products
  \<open>v[j] * m[j*4+i]\<close>, added in the order of \<open>j\<close>.
\<close>

definition fp_row_times_matrix :: "Machine \<Rightarrow> fp_array \<Rightarrow> fp_array \<Rightarrow> fp_array" where
  "fp_row_times_matrix mc v m =
     (\<lambda>i. foldl (fp_add mc) (fp_mul mc (v 0) (m i))
            (map (\<lambda>j. fp_mul mc (v j) (m (j * 4 + i))) [1, 2, 3]))"

text \<open>
  Two ways to divide a coordinate by \<open>w'\<close> on a machine: by one division, and by a
  multiplication with the reciprocal \<open>1 / w'\<close>.
\<close>

definition by_division :: "Machine \<Rightarrow> fp \<Rightarrow> fp \<Rightarrow> fp" where
  "by_division mc a w = fp_div mc a w"

definition by_reciprocal :: "Machine \<Rightarrow> fp \<Rightarrow> fp \<Rightarrow> fp" where
  "by_reciprocal mc a w = fp_mul mc a (fp_div mc (Finite 1) w)"

text \<open>
  The \<^verbatim>\<open>int\<close> of 32 bits that an integer is congruent to modulo \<open>2^32\<close>.
\<close>

definition narrow32 :: "int \<Rightarrow> int" where
  "narrow32 n =
     (let m = n mod 4294967296 in if m < 2147483648 then m else m - 4294967296)"

text \<open>
  A pixel coordinate on a machine: \<open>screen * (ndc * 0.5 + 0.5)\<close> in the machine's
  arithmetic, rounded to the nearest integer (halfway cases away from zero; the
  machine's unspecified result where there is no such \<^verbatim>\<open>long\<close>), and narrowed to an
  \<^verbatim>\<open>int\<close> of 32 bits.
\<close>

definition fp_pixel :: "Machine \<Rightarrow> real \<Rightarrow> fp \<Rightarrow> int" where
  "fp_pixel mc screen ndc =
     (let v = fp_mul mc (Finite screen) (fp_add mc (fp_mul mc ndc (Finite (1 / 2))) (Finite (1 / 2)))
      in narrow32
           (case number v of
              None \<Rightarrow> lround_unspecified mc v
            | Some r \<Rightarrow>
                if - LONG_MAX mc - 1 \<le> round_half_away r \<and> round_half_away r \<le> LONG_MAX mc
                then round_half_away r
                else lround_unspecified mc v))"

text \<open>
  The pixel coordinates by the sequence of C2 in the arithmetic of a machine, with the
  way \<open>ratio\<close> to divide by \<open>w'\<close>.
\<close>

definition project_pixels_fp ::
  "Machine \<Rightarrow> (fp \<Rightarrow> fp \<Rightarrow> fp) \<Rightarrow> FrameState \<Rightarrow> real \<Rightarrow> real \<Rightarrow> real \<Rightarrow> int \<times> int" where
  "project_pixels_fp mc ratio fs x y z =
     (let eye = fp_row_times_matrix mc (\<lambda>j. Finite (homogeneous x y z j))
                  (\<lambda>i. Finite (gMatrixWrld fs i));
          clip = fp_row_times_matrix mc eye (\<lambda>i. Finite (gMatrixProj fs i))
      in (fp_pixel mc (gScreenW fs) (ratio (clip 0) (clip 3)),
          fp_pixel mc (gScreenH fs) (ratio (clip 1) (clip 3))))"

subsection \<open>Arithmetic with the special values of IEEE 754\<close>

text \<open>
  The operations of IEEE 754 on the values of \<open>fp\<close> for a given rounding \<open>rnd\<close> of the
  exact result: the rules for NaN, the infinities and the signed zeros are those of
  the standard, and a result that is a number other than zero is \<open>rnd\<close> of the exact
  result. They serve to build example machines.
\<close>

fun sign_bit :: "fp \<Rightarrow> bool" where
  "sign_bit (Finite r) = (r < 0)"
| "sign_bit NegZero = True"
| "sign_bit PosInf = False"
| "sign_bit NegInf = True"
| "sign_bit NaN = False"

fun value_of :: "fp \<Rightarrow> real" where
  "value_of (Finite r) = r"
| "value_of v = 0"

definition is_zero :: "fp \<Rightarrow> bool" where
  "is_zero v = (v = Finite 0 \<or> v = NegZero)"

definition is_inf :: "fp \<Rightarrow> bool" where
  "is_inf v = (v = PosInf \<or> v = NegInf)"

definition signed_zero :: "bool \<Rightarrow> fp" where
  "signed_zero negative = (if negative then NegZero else Finite 0)"

definition signed_inf :: "bool \<Rightarrow> fp" where
  "signed_inf negative = (if negative then NegInf else PosInf)"

definition ieee_mul :: "(real \<Rightarrow> fp) \<Rightarrow> fp \<Rightarrow> fp \<Rightarrow> fp" where
  "ieee_mul rnd a b =
     (if a = NaN \<or> b = NaN then NaN
      else if is_inf a \<or> is_inf b
        then (if is_zero a \<or> is_zero b then NaN else signed_inf (sign_bit a \<noteq> sign_bit b))
      else if is_zero a \<or> is_zero b then signed_zero (sign_bit a \<noteq> sign_bit b)
      else rnd (value_of a * value_of b))"

definition ieee_div :: "(real \<Rightarrow> fp) \<Rightarrow> fp \<Rightarrow> fp \<Rightarrow> fp" where
  "ieee_div rnd a b =
     (if a = NaN \<or> b = NaN then NaN
      else if is_inf a
        then (if is_inf b then NaN else signed_inf (sign_bit a \<noteq> sign_bit b))
      else if is_inf b then signed_zero (sign_bit a \<noteq> sign_bit b)
      else if is_zero b
        then (if is_zero a then NaN else signed_inf (sign_bit a \<noteq> sign_bit b))
      else if is_zero a then signed_zero (sign_bit a \<noteq> sign_bit b)
      else rnd (value_of a / value_of b))"

definition ieee_add :: "(real \<Rightarrow> fp) \<Rightarrow> fp \<Rightarrow> fp \<Rightarrow> fp" where
  "ieee_add rnd a b =
     (if a = NaN \<or> b = NaN then NaN
      else if is_inf a then (if is_inf b \<and> a \<noteq> b then NaN else a)
      else if is_inf b then b
      else if is_zero a \<and> is_zero b
        then (if a = NegZero \<and> b = NegZero then NegZero else Finite 0)
      else if value_of a + value_of b = 0 then Finite 0
      else rnd (value_of a + value_of b))"

subsection \<open>Example data\<close>

text \<open>
  A machine that computes without rounding, with a \<^verbatim>\<open>long\<close> of 64 bits, and whose
  \<^verbatim>\<open>std::lround\<close> returns the least \<^verbatim>\<open>long\<close> where its result is unspecified. Where
  every exact result of a computation is a single-precision number, as in the
  examples below that use it, single-precision arithmetic computes the same.
\<close>

definition ex_machine :: Machine where
  "ex_machine =
     \<lparr>fp_mul = ieee_mul Finite, fp_add = ieee_add Finite, fp_div = ieee_div Finite,
      LONG_MAX = 9223372036854775807,
      lround_unspecified = (\<lambda>_. - 9223372036854775808)\<rparr>"

text \<open>
  Rounding to the nearest integer, halfway cases to the even one.
\<close>

definition round_ties_even :: "real \<Rightarrow> int" where
  "round_ties_even q =
     (let f = \<lfloor>q\<rfloor>
      in if q - of_int f < 1 / 2 then f
         else if q - of_int f > 1 / 2 then f + 1
         else if even f then f else f + 1)"

text \<open>
  The rounding of IEEE 754 single precision (binary32, round to nearest, ties to even)
  of a real number: with the exponent \<open>e\<close> of the number, at least \<open>-126\<close>, the
  representable numbers around it are the multiples of \<open>2^(e - 23)\<close>; a rounded value
  of magnitude \<open>2^128\<close> is an infinity, one that is zero a zero of the number's sign.
\<close>

definition rnd32 :: "real \<Rightarrow> fp" where
  "rnd32 r =
     (let e = max \<lfloor>log 2 \<bar>r\<bar>\<rfloor> (- 126);
          ulp = 2 powi (e - 23);
          v = of_int (round_ties_even (r / ulp)) * ulp
      in if \<bar>v\<bar> \<ge> 2 ^ 128 then signed_inf (r < 0)
         else if v = 0 then signed_zero (r < 0)
         else Finite v)"

text \<open>
  A machine with the single-precision arithmetic of IEEE 754, every operation rounded
  to nearest, a \<^verbatim>\<open>long\<close> of 64 bits, and a \<^verbatim>\<open>std::lround\<close> that returns the least
  \<^verbatim>\<open>long\<close> where its result is unspecified.
\<close>

definition ex_binary32 :: Machine where
  "ex_binary32 =
     \<lparr>fp_mul = ieee_mul rnd32, fp_add = ieee_add rnd32, fp_div = ieee_div rnd32,
      LONG_MAX = 9223372036854775807,
      lround_unspecified = (\<lambda>_. - 9223372036854775808)\<rparr>"


text \<open>The 4x4 identity matrix.\<close>

definition ex_identity :: float_array where
  "ex_identity = (\<lambda>i. if i = 0 \<or> i = 5 \<or> i = 10 \<or> i = 15 then 1 else 0)"

text \<open>
  A projection matrix with \<open>x' = x\<close>, \<open>y' = y\<close>, and \<open>z' = w' = - z\<close>: the camera looks
  along the negative \<open>z\<close> axis, and \<open>w'\<close> is the distance in front of it.
\<close>

definition ex_perspective :: float_array where
  "ex_perspective = (\<lambda>i. if i = 0 \<or> i = 5 then 1 else if i = 10 \<or> i = 11 then - 1 else 0)"

text \<open>
  The static variables for the identity as world matrix, that projection matrix and a
  window of 1920 by 1080 pixels.
\<close>

definition ex_frame_1920 :: FrameState where
  "ex_frame_1920 =
     \<lparr>gMatrixWrld = ex_identity, gMatrixProj = ex_perspective,
      gScreenW = 1920, gScreenH = 1080, gFOV = 60\<rparr>"

text \<open>
  A host with identity world and projection matrices, a window of 1000 by 800 pixels,
  and a font in which every character is 10 pixels wide.
\<close>

definition ex_xplane :: XPlane where
  "ex_xplane =
     \<lparr>world_matrix = ex_identity, projection_matrix_3d = ex_identity,
      window_width = 1000, window_height = 800, field_of_view_deg = 60,
      drVisibility = True, visibility_effective_m = 20000, camera_zoom = 1,
      MeasureString = (\<lambda>s. 10 * int (length s))\<rparr>"

text \<open>The static variables before the first pass.\<close>

definition ex_frame :: FrameState where
  "ex_frame =
     \<lparr>gMatrixWrld = (\<lambda>_. 0), gMatrixProj = (\<lambda>_. 0), gScreenW = 0, gScreenH = 0, gFOV = 0\<rparr>"

text \<open>The static variables after a pass with the host \<open>ex_xplane\<close>.\<close>

definition ex_frame_read :: FrameState where
  "ex_frame_read = fst (read_matrices ex_xplane ex_frame)"

text \<open>
  A rendered aircraft of wake-turbulence category M, 1000 m from the camera, with its
  own label flag off, a label of 4 and a sub-label of 7 characters.
\<close>

definition ex_aircraft :: Aircraft where
  "ex_aircraft =
     \<lparr>IsRendered = Inr True, ShallDrawLabel = Inr False, GetCameraDist = Inr 1000,
      GetModel = Inr (Some \<lparr>wtc = ''M''\<rparr>),
      drawInfo_x = 0.5, drawInfo_y = - 10, drawInfo_z = 0.5,
      label = ''AB12'', subLabel = ''B738EGL'',
      colLabel = (\<lambda>_. 1), colBackground = (\<lambda>_. 0.5)\<rparr>"

text \<open>An aircraft whose model cannot be read: \<^verbatim>\<open>GetModel()\<close> throws.\<close>

definition ex_aircraft_broken :: Aircraft where
  "ex_aircraft_broken = ex_aircraft\<lparr>GetModel := Inl (Exception ''no model'')\<rparr>"

text \<open>
  A configuration with labels enabled, no override, a maximum label distance of 3
  nautical miles cut off at the visibility, and no aircraft.
\<close>

definition ex_glob :: Global where
  "ex_glob =
     \<lparr>bDrawLabels = True, eLabelOverride = SWITCH_CFG_AUTO,
      bLabelCutOffAtVisibility = True, maxLabelDist = 5556,
      UsingModernGraphicsDriver = True, mapAc = []\<rparr>"

text \<open>
  A configuration with the override mode \<open>SWITCH_CFG_ON\<close> but label drawing globally
  disabled, and the one aircraft \<open>ex_aircraft\<close>.
\<close>

definition ex_glob_forced :: Global where
  "ex_glob_forced =
     ex_glob\<lparr>bDrawLabels := False, eLabelOverride := SWITCH_CFG_ON, mapAc := [(1, ex_aircraft)]\<rparr>"

subsection \<open>Properties of the projection\<close>

lemma lround_nearest: "\<bar>of_int (lround x) - x\<bar> \<le> 1 / 2"
proof (cases "0 \<le> x")
  case True
  have "of_int \<lfloor>x + 1 / 2\<rfloor> \<le> x + 1 / 2" and "x + 1 / 2 < of_int \<lfloor>x + 1 / 2\<rfloor> + 1"
    by linarith+
  then have "\<bar>of_int \<lfloor>x + 1 / 2\<rfloor> - x\<bar> \<le> 1 / 2"
    by linarith
  with True show ?thesis
    by (simp only: lround_def if_True)
next
  case False
  have "x - 1 / 2 \<le> of_int \<lceil>x - 1 / 2\<rceil>" and "of_int \<lceil>x - 1 / 2\<rceil> < x - 1 / 2 + 1"
    by linarith+
  then have "\<bar>of_int \<lceil>x - 1 / 2\<rceil> - x\<bar> \<le> 1 / 2"
    by linarith
  with False show ?thesis
    by (simp only: lround_def if_False)
qed

lemma lround_minus: "lround (- x) = - lround x"
proof -
  have "\<lceil>- x - 1 / 2\<rceil> = - \<lfloor>x + 1 / 2\<rfloor>" and "\<lfloor>- x + 1 / 2\<rfloor> = - \<lceil>x - 1 / 2\<rceil>"
    by (simp_all add: ceiling_def add.commute)
  then show ?thesis
    by (cases "x = 0") (auto simp add: lround_def)
qed

lemma int_of_long_id:
  "- 2147483648 \<le> n \<Longrightarrow> n \<le> 2147483647 \<Longrightarrow> int_of_long n = n"
  by (simp add: int_of_long_def)

lemma int_of_long_range:
  "- 2147483648 \<le> int_of_long n \<and> int_of_long n \<le> 2147483647"
  by (simp add: int_of_long_def)


lemmas ex_machine_simps =
  ex_machine_def ieee_mul_def ieee_add_def ieee_div_def is_zero_def is_inf_def
  signed_zero_def signed_inf_def

lemma ex_screen: "gScreenW ex_frame_read = 1000" "gScreenH ex_frame_read = 800"
  by (simp_all add: ex_frame_read_def read_matrices_def ex_xplane_def)

lemma ex_matrices:
  "gMatrixWrld ex_frame_read = ex_identity" "gMatrixProj ex_frame_read = ex_identity"
  by (auto simp add: ex_frame_read_def ex_frame_def read_matrices_def ex_xplane_def ex_identity_def fun_eq_iff)

lemma ex_number_mul:
  "number (fp_mul ex_machine a b) =
     (case (number a, number b) of (Some r, Some s) \<Rightarrow> Some (r * s) | _ \<Rightarrow> None)"
  by (cases a; cases b) (auto simp add: ex_machine_simps)

lemma ex_number_add:
  "number (fp_add ex_machine a b) =
     (case (number a, number b) of (Some r, Some s) \<Rightarrow> Some (r + s) | _ \<Rightarrow> None)"
  by (cases a; cases b) (auto simp add: ex_machine_simps)

lemma ex_number_div:
  "number b = Some s \<Longrightarrow> s \<noteq> 0 \<Longrightarrow>
     number (fp_div ex_machine a b) =
       (case number a of Some r \<Rightarrow> Some (r / s) | None \<Rightarrow> None)"
  by (cases a; cases b) (auto simp add: ex_machine_simps)

lemma ex_ndc_of:
  "number (ndc_of ex_machine ex_frame_read x y z 0) = Some x"
  "number (ndc_of ex_machine ex_frame_read x y z (Suc 0)) = Some y"
  "number (ndc_of ex_machine ex_frame_read x y z 2) = Some z"
  by (simp_all add: ndc_of_def ex_matrices ex_identity_def mult_matrix_vec_def
      perspective_divide_def Let_def ex_number_mul ex_number_add ex_number_div)

lemma ex_LONG_MAX: "LONG_MAX ex_machine = 9223372036854775807"
  by (simp add: ex_machine_def)

lemma ex_ConvertTo2d:
  "ConvertTo2d ex_machine ex_frame_read glob (1 / 2) (- 4) z =
     Converted (if UsingModernGraphicsDriver glob then 0 \<le> z \<and> z \<le> 1 else - 1 \<le> z \<and> z \<le> 1)
       750 (- 1200)"
  "ConvertTo2d ex_machine ex_frame_read glob (1 / 2) 1 z =
     Converted (if UsingModernGraphicsDriver glob then 0 \<le> z \<and> z \<le> 1 else - 1 \<le> z \<and> z \<le> 1)
       750 800"
  "ConvertTo2d ex_machine ex_frame_read glob (1 / 2) 0 z =
     Converted (if UsingModernGraphicsDriver glob then 0 \<le> z \<and> z \<le> 1 else - 1 \<le> z \<and> z \<le> 1)
       750 400"
  by (simp_all add: ConvertTo2d_def Let_def pixel_of_def std_lround_def fp_le_def ex_ndc_of
      ex_screen ex_number_mul ex_number_add lround_def int_of_long_def ex_LONG_MAX)

text \<open>
  Examples with identity matrices: a depth of \<open>-1/2\<close> is visible with the legacy
  driver only, a depth of \<open>3/2\<close> with neither.
\<close>

lemma ex_ConvertTo2d_depth:
  "visible (ConvertTo2d ex_machine ex_frame_read (glob\<lparr>UsingModernGraphicsDriver := False\<rparr>) (1 / 2) 0 (- 1 / 2))"
  "\<not> visible (ConvertTo2d ex_machine ex_frame_read (glob\<lparr>UsingModernGraphicsDriver := True\<rparr>) (1 / 2) 0 (- 1 / 2))"
  "\<not> visible (ConvertTo2d ex_machine ex_frame_read (glob\<lparr>UsingModernGraphicsDriver := False\<rparr>) (1 / 2) 0 (3 / 2))"
  "\<not> visible (ConvertTo2d ex_machine ex_frame_read (glob\<lparr>UsingModernGraphicsDriver := True\<rparr>) (1 / 2) 0 (3 / 2))"
  by (simp_all add: ex_ConvertTo2d)


text \<open>
  C9. \<^verbatim>\<open>read_matrices\<close> reads the field of view into the frame state, and two frame
  states that differ only in the field-of-view value give the same projection of every
  point: the same pixel coordinates and the same visibility.
\<close>

theorem ConvertTo2d_ignores_gFOV:
  "gFOV (fst (read_matrices xp fs)) = field_of_view_deg xp \<and>
   ConvertTo2d mc (fs\<lparr>gFOV := fov\<rparr>) glob x y z = ConvertTo2d mc fs glob x y z"
  by (simp add: ConvertTo2d_def ndc_of_def read_matrices_def)

subsection \<open>Properties of the configuration\<close>

text \<open>
  C10. For every input distance, zero and negative ones too,
  \<^verbatim>\<open>XPMPSetAircraftLabelDist\<close> stores \<open>max (input, 1.0)\<close> nautical miles converted to
  meters, so the stored maximum label distance is at least 1852 m; an input of at most
  1 nautical mile is clamped to 1852 m, not rejected.
\<close>

theorem XPMPSetAircraftLabelDist_at_least_1_NM:
  "maxLabelDist (XPMPSetAircraftLabelDist dist_nm b glob) = max dist_nm 1 * 1852 \<and>
   1852 \<le> maxLabelDist (XPMPSetAircraftLabelDist dist_nm b glob) \<and>
   maxLabelDist (XPMPSetAircraftLabelDist (min dist_nm 1) b glob) = 1852"
  by (simp add: XPMPSetAircraftLabelDist_def M_per_NM_def max_def min_def)

text \<open>
  C4. With all other inputs fixed, and for distances and a zoom factor that are not
  negative, the maximum label distance
  \<open>min (configured maximum, effective visibility) * zoom\<close> does not decrease when the
  camera zoom grows, and does not grow when the reported visibility gets smaller. The
  reported visibility counts as a distance only where the cut-off at the visibility
  is in use.
\<close>

theorem calc_maxLabelDist_monotone:
  "(0 \<le> maxLabelDist glob \<and>
    (bLabelCutOffAtVisibility glob \<and> drVisibility xp \<longrightarrow> 0 \<le> visibility_effective_m xp) \<and>
    z1 \<le> z2 \<longrightarrow>
      calc_maxLabelDist glob (xp\<lparr>camera_zoom := z1\<rparr>)
        \<le> calc_maxLabelDist glob (xp\<lparr>camera_zoom := z2\<rparr>)) \<and>
   (0 \<le> camera_zoom xp \<and> v1 \<le> v2 \<longrightarrow>
      calc_maxLabelDist glob (xp\<lparr>visibility_effective_m := v1\<rparr>)
        \<le> calc_maxLabelDist glob (xp\<lparr>visibility_effective_m := v2\<rparr>))"
proof (intro conjI impI)
  assume "0 \<le> maxLabelDist glob \<and>
    (bLabelCutOffAtVisibility glob \<and> drVisibility xp \<longrightarrow> 0 \<le> visibility_effective_m xp) \<and>
    z1 \<le> z2"
  then show "calc_maxLabelDist glob (xp\<lparr>camera_zoom := z1\<rparr>)
        \<le> calc_maxLabelDist glob (xp\<lparr>camera_zoom := z2\<rparr>)"
    by (auto simp add: calc_maxLabelDist_def mult_left_mono)
next
  assume "0 \<le> camera_zoom xp \<and> v1 \<le> v2"
  then show "calc_maxLabelDist glob (xp\<lparr>visibility_effective_m := v1\<rparr>)
        \<le> calc_maxLabelDist glob (xp\<lparr>visibility_effective_m := v2\<rparr>)"
    by (auto simp add: calc_maxLabelDist_def intro!: mult_right_mono)
qed

text \<open>
  C4 at a configured maximum of 3 nautical miles: zoom 1 against zoom 2 at a visibility
  of 20 km (5556 m against 11112 m), a visibility of 1 km against 20 km at zoom 1
  (1000 m against 5556 m), and zoom 1 against zoom 2 with the cut-off at the
  visibility not in use.
\<close>

theorem calc_maxLabelDist_monotone_witness:
  "calc_maxLabelDist ex_glob (ex_xplane\<lparr>camera_zoom := 1\<rparr>) = 5556 \<and>
   calc_maxLabelDist ex_glob (ex_xplane\<lparr>camera_zoom := 2\<rparr>) = 11112 \<and>
   calc_maxLabelDist ex_glob (ex_xplane\<lparr>camera_zoom := 1\<rparr>)
     \<le> calc_maxLabelDist ex_glob (ex_xplane\<lparr>camera_zoom := 2\<rparr>) \<and>
   calc_maxLabelDist ex_glob (ex_xplane\<lparr>visibility_effective_m := 1000\<rparr>) = 1000 \<and>
   calc_maxLabelDist ex_glob (ex_xplane\<lparr>visibility_effective_m := 20000\<rparr>) = 5556 \<and>
   calc_maxLabelDist ex_glob (ex_xplane\<lparr>visibility_effective_m := 1000\<rparr>)
     \<le> calc_maxLabelDist ex_glob (ex_xplane\<lparr>visibility_effective_m := 20000\<rparr>) \<and>
   calc_maxLabelDist (ex_glob\<lparr>bLabelCutOffAtVisibility := False\<rparr>) (ex_xplane\<lparr>camera_zoom := 1\<rparr>)
     \<le> calc_maxLabelDist (ex_glob\<lparr>bLabelCutOffAtVisibility := False\<rparr>)
          (ex_xplane\<lparr>camera_zoom := 2\<rparr>)"
  using calc_maxLabelDist_monotone [of ex_glob ex_xplane 1 2 1000 20000]
    calc_maxLabelDist_monotone [of "ex_glob\<lparr>bLabelCutOffAtVisibility := False\<rparr>" ex_xplane 1 2 0 0]
  by (simp add: ex_glob_def ex_xplane_def calc_maxLabelDist_def)

subsection \<open>Properties of the label pass\<close>

lemma TwoDDrawLabels_off:
  assumes "\<not> bDrawLabels glob \<or> eLabelOverride glob = SWITCH_CFG_OFF"
  shows "TwoDDrawLabels mc xp glob fs = \<lparr>frame = fs, setup_events = [], ac_events = []\<rparr>"
  using assms by (auto simp add: TwoDDrawLabels_def)

lemma TwoDDrawLabels_on:
  assumes "bDrawLabels glob" and "eLabelOverride glob \<noteq> SWITCH_CFG_OFF"
  shows "TwoDDrawLabels mc xp glob fs =
     \<lparr>frame = fst (read_matrices xp fs),
      setup_events = snd (read_matrices xp fs) @ maxLabelDist_events glob xp,
      ac_events = TwoDDrawLabels_loop mc xp glob (fst (read_matrices xp fs))
                    (calc_maxLabelDist glob xp) (mapAc glob)\<rparr>"
  using assms by (simp add: TwoDDrawLabels_def Let_def split_beta)

lemma setup_events_on:
  "snd (read_matrices xp fs) @ maxLabelDist_events glob xp \<noteq> []"
  by (simp add: read_matrices_def)

lemma TwoDDrawLabels_loop_append:
  "TwoDDrawLabels_loop mc xp glob fs d (ps @ qs) =
     TwoDDrawLabels_loop mc xp glob fs d ps @ TwoDDrawLabels_loop mc xp glob fs d qs"
  by (induction ps) simp_all

lemma TwoDDrawLabels_loop_keys:
  "map fst (TwoDDrawLabels_loop mc xp glob fs d ps) = map fst ps"
  by (induction ps) simp_all

lemma events_for_loop_absent:
  "acId \<notin> fst ` set ps \<Longrightarrow>
     filter (\<lambda>p. fst p = acId) (TwoDDrawLabels_loop mc xp glob fs d ps) = []"
  by (induction ps) auto

lemma events_for_loop:
  assumes "distinct (map fst ps)" and "(acId, ac) \<in> set ps"
  shows "concat (map snd (filter (\<lambda>p. fst p = acId) (TwoDDrawLabels_loop mc xp glob fs d ps))) =
     TwoDDrawLabels_ac mc xp glob fs d (acId, ac)"
  using assms
proof (induction ps)
  case Nil
  then show ?case by simp
next
  case (Cons p ps)
  show ?case
  proof (cases "p = (acId, ac)")
    case True
    with Cons.prems have "acId \<notin> fst ` set ps" by auto
    then show ?thesis
      using True by (simp add: events_for_loop_absent)
  next
    case False
    with Cons.prems have in_ps: "(acId, ac) \<in> set ps" by simp
    then have "acId \<in> fst ` set ps" by force
    with Cons.prems have "fst p \<noteq> acId" by auto
    then show ?thesis
      using Cons.IH Cons.prems in_ps by simp
  qed
qed

lemma events_for_TwoDDrawLabels_on:
  assumes "bDrawLabels glob" and "eLabelOverride glob \<noteq> SWITCH_CFG_OFF"
    and "distinct (map fst (mapAc glob))" and "(acId, ac) \<in> set (mapAc glob)"
  shows "events_for (TwoDDrawLabels mc xp glob fs) acId =
     TwoDDrawLabels_ac mc xp glob (fst (read_matrices xp fs)) (calc_maxLabelDist glob xp) (acId, ac)"
  using assms by (simp add: TwoDDrawLabels_on events_for_def events_for_loop)

lemma events_for_TwoDDrawLabels_off:
  assumes "\<not> bDrawLabels glob \<or> eLabelOverride glob = SWITCH_CFG_OFF"
  shows "events_for (TwoDDrawLabels mc xp glob fs) acId = []"
  using assms by (simp add: TwoDDrawLabels_off events_for_def)

text \<open>
  C3, as amended. The label pass does no work at all (it leaves the frame state as it
  is, visits no aircraft and makes no host call) if and only if global label drawing
  is disabled or the override mode is \<open>SWITCH_CFG_OFF\<close>. With the global flag off the
  pass does nothing, whatever the override mode.
\<close>

theorem TwoDDrawLabels_no_work_iff:
  "(TwoDDrawLabels mc xp glob fs = \<lparr>frame = fs, setup_events = [], ac_events = []\<rparr> \<longleftrightarrow>
      \<not> bDrawLabels glob \<or> eLabelOverride glob = SWITCH_CFG_OFF) \<and>
   (all_events (TwoDDrawLabels mc xp glob fs) = [] \<longleftrightarrow>
      \<not> bDrawLabels glob \<or> eLabelOverride glob = SWITCH_CFG_OFF)"
proof (cases "\<not> bDrawLabels glob \<or> eLabelOverride glob = SWITCH_CFG_OFF")
  case True
  then show ?thesis
    by (simp add: TwoDDrawLabels_off all_events_def)
next
  case False
  then have on: "bDrawLabels glob" "eLabelOverride glob \<noteq> SWITCH_CFG_OFF" by simp_all
  have "setup_events (TwoDDrawLabels mc xp glob fs) \<noteq> []"
    using setup_events_on by (simp add: TwoDDrawLabels_on [OF on])
  then have "TwoDDrawLabels mc xp glob fs \<noteq> \<lparr>frame = fs, setup_events = [], ac_events = []\<rparr>"
    and "all_events (TwoDDrawLabels mc xp glob fs) \<noteq> []"
    by (auto simp add: all_events_def)
  with False show ?thesis by simp
qed

lemma ex_all_events:
  "all_events (TwoDDrawLabels ex_machine ex_xplane ex_glob ex_frame) =
     [XPLMGetDatavf drMatrixWrld, XPLMGetDatavf drMatrixProj,
      XPLMGetDatai drScreenWidth, XPLMGetDatai drScreenHeight,
      XPLMGetDataf drFieldOfView, XPLMReadCameraPosition, XPLMGetDataf drVisibilityRef]"
  by (simp add: TwoDDrawLabels_def all_events_def read_matrices_def maxLabelDist_events_def
      ex_glob_def ex_xplane_def)

text \<open>
  The amended C3 at three configurations: global flag off, override off, and labels
  enabled with no override.
\<close>

theorem TwoDDrawLabels_no_work_iff_witness:
  "all_events (TwoDDrawLabels ex_machine ex_xplane (ex_glob\<lparr>bDrawLabels := False\<rparr>) ex_frame) = [] \<and>
   all_events (TwoDDrawLabels ex_machine ex_xplane (ex_glob\<lparr>eLabelOverride := SWITCH_CFG_OFF\<rparr>) ex_frame) = [] \<and>
   all_events (TwoDDrawLabels ex_machine ex_xplane ex_glob ex_frame) \<noteq> []"
  using TwoDDrawLabels_no_work_iff [of ex_machine ex_xplane "ex_glob\<lparr>bDrawLabels := False\<rparr>" ex_frame]
    TwoDDrawLabels_no_work_iff [of ex_machine ex_xplane "ex_glob\<lparr>eLabelOverride := SWITCH_CFG_OFF\<rparr>" ex_frame]
    TwoDDrawLabels_no_work_iff [of ex_machine ex_xplane ex_glob ex_frame]
  by (simp add: ex_glob_def all_events_def)

text \<open>
  C3 as stated fails with the global flag off and the override mode \<open>SWITCH_CFG_ON\<close>:
  the pass returns at once, with the frame state untouched and no call made, where the
  claim has it run.
\<close>

theorem TwoDDrawLabels_forced_on_counterexample:
  "\<not> bDrawLabels (ex_glob\<lparr>bDrawLabels := False, eLabelOverride := SWITCH_CFG_ON,
        mapAc := [(1, ex_aircraft)]\<rparr>) \<and>
   eLabelOverride (ex_glob\<lparr>bDrawLabels := False, eLabelOverride := SWITCH_CFG_ON,
        mapAc := [(1, ex_aircraft)]\<rparr>) = SWITCH_CFG_ON \<and>
   TwoDDrawLabels ex_machine ex_xplane
     (ex_glob\<lparr>bDrawLabels := False, eLabelOverride := SWITCH_CFG_ON, mapAc := [(1, ex_aircraft)]\<rparr>)
     ex_frame = \<lparr>frame = ex_frame, setup_events = [], ac_events = []\<rparr>"
  by (simp add: TwoDDrawLabels_def)


lemma TwoDDrawLabels_try_processed:
  assumes "IsRendered ac = Inr True"
    and "ShallDrawLabel ac = Inr shall"
    and "shall \<or> eLabelOverride glob = SWITCH_CFG_ON"
    and "GetCameraDist ac = Inr d"
    and "d \<le> maxd"
    and "GetModel ac = Inr pCSLMdl"
  shows "TwoDDrawLabels_try mc xp glob fs maxd ac =
     (case ConvertTo2d mc fs glob (drawInfo_x ac) (drawInfo_y ac + vertLabelOfs pCSLMdl)
             (drawInfo_z ac) of
        Converted vis x y \<Rightarrow> if vis then Inr (draw_label xp ac x y) else Inr [])"
  using assms by (auto simp add: TwoDDrawLabels_try_def split: Conv2d.split)

text \<open>
  C5. For every aircraft a label pass processes (rendered, its label to be drawn, not
  farther away than the maximum label distance), the point projected is the aircraft's
  position with a vertical offset added to \<open>y\<close>: 6.0 when the wake-turbulence category
  starts with \<open>L\<close>, 11.0 when it starts with \<open>H\<close>, 10.0 for every other category and
  also when the aircraft has no model.
\<close>

theorem vertLabelOfs_by_wake_category:
  assumes "IsRendered ac = Inr True"
    and "ShallDrawLabel ac = Inr shall"
    and "shall \<or> eLabelOverride glob = SWITCH_CFG_ON"
    and "GetCameraDist ac = Inr d"
    and "d \<le> maxd"
    and "GetModel ac = Inr pCSLMdl"
    and "ofs = (case pCSLMdl of
                  None \<Rightarrow> 10
                | Some mdl \<Rightarrow> if wtc_0 mdl = CHR ''L'' then 6
                              else if wtc_0 mdl = CHR ''H'' then 11 else 10)"
  shows "TwoDDrawLabels_try mc xp glob fs maxd ac =
     (case ConvertTo2d mc fs glob (drawInfo_x ac) (drawInfo_y ac + ofs) (drawInfo_z ac) of
        Converted vis x y \<Rightarrow> if vis then Inr (draw_label xp ac x y) else Inr [])"
proof -
  have "ofs = vertLabelOfs pCSLMdl"
    using assms(7) by (simp add: vertLabelOfs_def)
  then show ?thesis
    using TwoDDrawLabels_try_processed [OF assms(1-6)] by simp
qed

text \<open>
  C5 at four aircraft that differ only in the model: categories L, H and M, and no
  model. The world position has \<open>y = -10\<close>; with identity matrices and a screen height
  of 800 the offsets 6, 11, 10 and 10 give the pixel rows -1200, 800, 400 and 400.
\<close>

theorem vertLabelOfs_by_wake_category_witness:
  "TwoDDrawLabels_try ex_machine ex_xplane (ex_glob\<lparr>eLabelOverride := SWITCH_CFG_ON\<rparr>) ex_frame_read 5556
     (ex_aircraft\<lparr>GetModel := Inr (Some \<lparr>wtc = ''L''\<rparr>)\<rparr>) =
     Inr (draw_label ex_xplane (ex_aircraft\<lparr>GetModel := Inr (Some \<lparr>wtc = ''L''\<rparr>)\<rparr>) 750 (- 1200)) \<and>
   TwoDDrawLabels_try ex_machine ex_xplane (ex_glob\<lparr>eLabelOverride := SWITCH_CFG_ON\<rparr>) ex_frame_read 5556
     (ex_aircraft\<lparr>GetModel := Inr (Some \<lparr>wtc = ''H''\<rparr>)\<rparr>) =
     Inr (draw_label ex_xplane (ex_aircraft\<lparr>GetModel := Inr (Some \<lparr>wtc = ''H''\<rparr>)\<rparr>) 750 800) \<and>
   TwoDDrawLabels_try ex_machine ex_xplane (ex_glob\<lparr>eLabelOverride := SWITCH_CFG_ON\<rparr>) ex_frame_read 5556
     ex_aircraft =
     Inr (draw_label ex_xplane ex_aircraft 750 400) \<and>
   TwoDDrawLabels_try ex_machine ex_xplane (ex_glob\<lparr>eLabelOverride := SWITCH_CFG_ON\<rparr>) ex_frame_read 5556
     (ex_aircraft\<lparr>GetModel := Inr None\<rparr>) =
     Inr (draw_label ex_xplane (ex_aircraft\<lparr>GetModel := Inr None\<rparr>) 750 400)"
proof -
  let ?g = "ex_glob\<lparr>eLabelOverride := SWITCH_CFG_ON\<rparr>"
  have light: "TwoDDrawLabels_try ex_machine ex_xplane ?g ex_frame_read 5556
      (ex_aircraft\<lparr>GetModel := Inr (Some \<lparr>wtc = ''L''\<rparr>)\<rparr>) =
      Inr (draw_label ex_xplane (ex_aircraft\<lparr>GetModel := Inr (Some \<lparr>wtc = ''L''\<rparr>)\<rparr>) 750 (- 1200))"
    using vertLabelOfs_by_wake_category [where ac = "ex_aircraft\<lparr>GetModel := Inr (Some \<lparr>wtc = ''L''\<rparr>)\<rparr>"
        and shall = False and glob = ?g and d = 1000 and maxd = 5556
        and pCSLMdl = "Some \<lparr>wtc = ''L''\<rparr>" and ofs = 6 and mc = ex_machine and xp = ex_xplane and fs = ex_frame_read]
    by (simp add: ex_aircraft_def ex_glob_def wtc_0_def ex_ConvertTo2d lround_def)
  have heavy: "TwoDDrawLabels_try ex_machine ex_xplane ?g ex_frame_read 5556
      (ex_aircraft\<lparr>GetModel := Inr (Some \<lparr>wtc = ''H''\<rparr>)\<rparr>) =
      Inr (draw_label ex_xplane (ex_aircraft\<lparr>GetModel := Inr (Some \<lparr>wtc = ''H''\<rparr>)\<rparr>) 750 800)"
    using vertLabelOfs_by_wake_category [where ac = "ex_aircraft\<lparr>GetModel := Inr (Some \<lparr>wtc = ''H''\<rparr>)\<rparr>"
        and shall = False and glob = ?g and d = 1000 and maxd = 5556
        and pCSLMdl = "Some \<lparr>wtc = ''H''\<rparr>" and ofs = 11 and mc = ex_machine and xp = ex_xplane and fs = ex_frame_read]
    by (simp add: ex_aircraft_def ex_glob_def wtc_0_def ex_ConvertTo2d lround_def)
  have medium: "TwoDDrawLabels_try ex_machine ex_xplane ?g ex_frame_read 5556 ex_aircraft =
      Inr (draw_label ex_xplane ex_aircraft 750 400)"
    using vertLabelOfs_by_wake_category [where ac = ex_aircraft
        and shall = False and glob = ?g and d = 1000 and maxd = 5556
        and pCSLMdl = "Some \<lparr>wtc = ''M''\<rparr>" and ofs = 10 and mc = ex_machine and xp = ex_xplane and fs = ex_frame_read]
    by (simp add: ex_aircraft_def ex_glob_def wtc_0_def ex_ConvertTo2d lround_def)
  have none: "TwoDDrawLabels_try ex_machine ex_xplane ?g ex_frame_read 5556 (ex_aircraft\<lparr>GetModel := Inr None\<rparr>) =
      Inr (draw_label ex_xplane (ex_aircraft\<lparr>GetModel := Inr None\<rparr>) 750 400)"
    using vertLabelOfs_by_wake_category [where ac = "ex_aircraft\<lparr>GetModel := Inr None\<rparr>"
        and shall = False and glob = ?g and d = 1000 and maxd = 5556
        and pCSLMdl = None and ofs = 10 and mc = ex_machine and xp = ex_xplane and fs = ex_frame_read]
    by (simp add: ex_aircraft_def ex_glob_def ex_ConvertTo2d lround_def)
  from light heavy medium none show ?thesis by blast
qed


lemma TwoDDrawLabels_try_drawn:
  assumes "TwoDDrawLabels_try mc xp glob fs maxd ac = Inr evs" and "evs \<noteq> []"
  shows "\<exists>shall d pCSLMdl x y.
     IsRendered ac = Inr True \<and> ShallDrawLabel ac = Inr shall \<and>
     (shall \<or> eLabelOverride glob = SWITCH_CFG_ON) \<and>
     GetCameraDist ac = Inr d \<and> d \<le> maxd \<and> GetModel ac = Inr pCSLMdl \<and>
     ConvertTo2d mc fs glob (drawInfo_x ac) (drawInfo_y ac + vertLabelOfs pCSLMdl) (drawInfo_z ac)
       = Converted True x y \<and>
     evs = draw_label xp ac x y"
  using assms unfolding TwoDDrawLabels_try_def
  by (auto split: sum.splits if_splits Conv2d.splits)

lemma draw_label_nonempty: "draw_label xp ac x y \<noteq> []"
  by (simp add: draw_label_def Let_def)

lemma draw_label_draws: "filter is_draw_call (draw_label xp ac x y) \<noteq> []"
  by (simp add: draw_label_def Let_def DrawTranslucentBox_def)

lemma draw_label_box:
  "\<exists>rest. draw_label xp ac x y =
     [XPLMMeasureString (label ac), XPLMMeasureString (subLabel ac)] @
     DrawTranslucentBox
       (of_int (x - max (MeasureString xp (label ac)) (MeasureString xp (subLabel ac)) sdiv 2 - 5))
       (of_int (y + 15))
       (of_int (x - max (MeasureString xp (label ac)) (MeasureString xp (subLabel ac)) sdiv 2
                + max (MeasureString xp (label ac)) (MeasureString xp (subLabel ac)) + 5))
       (of_int (y - 10))
       (colBackground ac 0) (colBackground ac 1) (colBackground ac 2) (colBackground ac 3) @
     rest"
  by (simp add: draw_label_def Let_def max_def)

text \<open>
  C8. For every drawn label, the width of the background box is the larger of the
  measured widths of the label and of the sub-label, the box starts at
  \<open>boxLeft = screenX - boxWidth / 2\<close> (the division of C), and the quad spans from
  \<open>(boxLeft - 5, screenY + 15)\<close> to \<open>(boxLeft + boxWidth + 5, screenY - 10)\<close>, in the
  aircraft's background colour.
\<close>

theorem drawn_label_box_geometry:
  assumes "TwoDDrawLabels_try mc xp glob fs maxd ac = Inr evs" and "evs \<noteq> []"
    and "boxWidth = max (MeasureString xp (label ac)) (MeasureString xp (subLabel ac))"
  shows "\<exists>pCSLMdl screenX screenY boxLeft rest.
     GetModel ac = Inr pCSLMdl \<and>
     ConvertTo2d mc fs glob (drawInfo_x ac) (drawInfo_y ac + vertLabelOfs pCSLMdl) (drawInfo_z ac)
       = Converted True screenX screenY \<and>
     boxLeft = screenX - boxWidth sdiv 2 \<and>
     evs = [XPLMMeasureString (label ac), XPLMMeasureString (subLabel ac),
            XPLMSetGraphicsState 0 0 0 0 1 1 0,
            glColor4f (colBackground ac 0) (colBackground ac 1) (colBackground ac 2)
              (colBackground ac 3),
            glBegin_GL_QUADS,
            glVertex2f (of_int (boxLeft - 5)) (of_int (screenY - 10)),
            glVertex2f (of_int (boxLeft - 5)) (of_int (screenY + 15)),
            glVertex2f (of_int (boxLeft + boxWidth + 5)) (of_int (screenY + 15)),
            glVertex2f (of_int (boxLeft + boxWidth + 5)) (of_int (screenY - 10)),
            glEnd] @ rest"
proof -
  from TwoDDrawLabels_try_drawn [OF assms(1,2)] obtain pCSLMdl x y where
    m: "GetModel ac = Inr pCSLMdl"
    and c: "ConvertTo2d mc fs glob (drawInfo_x ac) (drawInfo_y ac + vertLabelOfs pCSLMdl)
              (drawInfo_z ac) = Converted True x y"
    and evs: "evs = draw_label xp ac x y"
    by blast
  from draw_label_box [of xp ac x y] obtain rest where
    "evs = [XPLMMeasureString (label ac), XPLMMeasureString (subLabel ac)] @
       DrawTranslucentBox (of_int (x - boxWidth sdiv 2 - 5)) (of_int (y + 15))
         (of_int (x - boxWidth sdiv 2 + boxWidth + 5)) (of_int (y - 10))
         (colBackground ac 0) (colBackground ac 1) (colBackground ac 2) (colBackground ac 3) @
       rest"
    unfolding evs assms(3) by blast
  then have "evs = [XPLMMeasureString (label ac), XPLMMeasureString (subLabel ac),
            XPLMSetGraphicsState 0 0 0 0 1 1 0,
            glColor4f (colBackground ac 0) (colBackground ac 1) (colBackground ac 2)
              (colBackground ac 3),
            glBegin_GL_QUADS,
            glVertex2f (of_int (x - boxWidth sdiv 2 - 5)) (of_int (y - 10)),
            glVertex2f (of_int (x - boxWidth sdiv 2 - 5)) (of_int (y + 15)),
            glVertex2f (of_int (x - boxWidth sdiv 2 + boxWidth + 5)) (of_int (y + 15)),
            glVertex2f (of_int (x - boxWidth sdiv 2 + boxWidth + 5)) (of_int (y - 10)),
            glEnd] @ rest"
    by (simp add: DrawTranslucentBox_def)
  with m c show ?thesis by blast
qed


lemma ex_frame_of_pass:
  assumes "bDrawLabels glob" and "eLabelOverride glob \<noteq> SWITCH_CFG_OFF"
  shows "frame (TwoDDrawLabels ex_machine ex_xplane glob ex_frame) = ex_frame_read"
  using assms by (simp add: TwoDDrawLabels_on ex_frame_read_def)

lemma ex_try_drawn:
  "TwoDDrawLabels_try ex_machine ex_xplane (ex_glob\<lparr>eLabelOverride := SWITCH_CFG_ON, mapAc := ps\<rparr>)
     ex_frame_read 5556 ex_aircraft = Inr (draw_label ex_xplane ex_aircraft 750 400)"
  by (simp add: TwoDDrawLabels_try_def ex_aircraft_def ex_glob_def vertLabelOfs_def wtc_0_def
      ex_ConvertTo2d lround_def)

lemma ex_draw_label:
  "draw_label ex_xplane ex_aircraft 750 400 =
     [XPLMMeasureString ''AB12'', XPLMMeasureString ''B738EGL'',
      XPLMSetGraphicsState 0 0 0 0 1 1 0,
      glColor4f (1 / 2) (1 / 2) (1 / 2) (1 / 2),
      glBegin_GL_QUADS,
      glVertex2f 710 390, glVertex2f 710 415, glVertex2f 790 415, glVertex2f 790 390,
      glEnd,
      XPLMDrawString (\<lambda>_. 1) 730 400 ''AB12'',
      XPLMDrawString ((\<lambda>_. 0)(0 := 1, 1 := 1, 2 := 1, 3 := 0.6)) 715 375 ''B738EGL'']"
  by (simp add: draw_label_def ex_xplane_def ex_aircraft_def Let_def DrawTranslucentBox_def)

text \<open>
  C8 at a label 40 pixels and a sub-label 70 pixels wide, projected to \<open>(750, 400)\<close>:
  the quad spans from 710 to 790, 80 pixels wide.
\<close>

theorem drawn_label_box_geometry_witness:
  "MeasureString ex_xplane (label ex_aircraft) = 40 \<and>
   MeasureString ex_xplane (subLabel ex_aircraft) = 70 \<and>
   (\<exists>rest. TwoDDrawLabels_try ex_machine ex_xplane (ex_glob\<lparr>eLabelOverride := SWITCH_CFG_ON\<rparr>)
        ex_frame_read 5556 ex_aircraft =
      Inr ([XPLMMeasureString ''AB12'', XPLMMeasureString ''B738EGL'',
            XPLMSetGraphicsState 0 0 0 0 1 1 0,
            glColor4f (1 / 2) (1 / 2) (1 / 2) (1 / 2),
            glBegin_GL_QUADS,
            glVertex2f 710 390, glVertex2f 710 415, glVertex2f 790 415, glVertex2f 790 390,
            glEnd] @ rest)) \<and>
   (790 :: real) - 710 = 80"
proof -
  let ?g = "ex_glob\<lparr>eLabelOverride := SWITCH_CFG_ON\<rparr>"
  let ?evs = "draw_label ex_xplane ex_aircraft 750 400"
  have run: "TwoDDrawLabels_try ex_machine ex_xplane ?g ex_frame_read 5556 ex_aircraft = Inr ?evs"
    using ex_try_drawn [of "mapAc ex_glob"] by simp
  have widths: "MeasureString ex_xplane (label ex_aircraft) = 40"
    "MeasureString ex_xplane (subLabel ex_aircraft) = 70"
    by (simp_all add: ex_xplane_def ex_aircraft_def)
  have "70 = max (MeasureString ex_xplane (label ex_aircraft))
               (MeasureString ex_xplane (subLabel ex_aircraft))"
    by (simp add: widths)
  from drawn_label_box_geometry [OF run draw_label_nonempty this]
  obtain pCSLMdl screenX screenY boxLeft rest where
    m: "GetModel ex_aircraft = Inr pCSLMdl"
    and c: "ConvertTo2d ex_machine ex_frame_read ?g (drawInfo_x ex_aircraft)
              (drawInfo_y ex_aircraft + vertLabelOfs pCSLMdl) (drawInfo_z ex_aircraft)
            = Converted True screenX screenY"
    and l: "boxLeft = screenX - 70 sdiv 2"
    and evs: "?evs = [XPLMMeasureString (label ex_aircraft), XPLMMeasureString (subLabel ex_aircraft),
            XPLMSetGraphicsState 0 0 0 0 1 1 0,
            glColor4f (colBackground ex_aircraft 0) (colBackground ex_aircraft 1)
              (colBackground ex_aircraft 2) (colBackground ex_aircraft 3),
            glBegin_GL_QUADS,
            glVertex2f (of_int (boxLeft - 5)) (of_int (screenY - 10)),
            glVertex2f (of_int (boxLeft - 5)) (of_int (screenY + 15)),
            glVertex2f (of_int (boxLeft + 70 + 5)) (of_int (screenY + 15)),
            glVertex2f (of_int (boxLeft + 70 + 5)) (of_int (screenY - 10)),
            glEnd] @ rest"
    by blast
  from m have "pCSLMdl = Some \<lparr>wtc = ''M''\<rparr>"
    by (simp add: ex_aircraft_def)
  with c have "screenX = 750" and "screenY = 400"
    by (simp_all add: ex_aircraft_def vertLabelOfs_def wtc_0_def ex_ConvertTo2d lround_def)
  with l evs have "?evs = [XPLMMeasureString ''AB12'', XPLMMeasureString ''B738EGL'',
            XPLMSetGraphicsState 0 0 0 0 1 1 0,
            glColor4f (1 / 2) (1 / 2) (1 / 2) (1 / 2),
            glBegin_GL_QUADS,
            glVertex2f 710 390, glVertex2f 710 415, glVertex2f 790 415, glVertex2f 790 390,
            glEnd] @ rest"
    by (simp add: ex_aircraft_def)
  with run widths show ?thesis by auto
qed


lemma TwoDDrawLabels_try_flag_off:
  assumes "ShallDrawLabel ac = Inr False" and "eLabelOverride glob \<noteq> SWITCH_CFG_ON"
  shows "TwoDDrawLabels_try mc xp glob fs maxd ac = Inr [] \<or>
     (\<exists>e. TwoDDrawLabels_try mc xp glob fs maxd ac = Inl e)"
  using assms by (auto simp add: TwoDDrawLabels_try_def split: sum.splits)

lemma TwoDDrawLabels_ac_flag_off:
  assumes "ShallDrawLabel ac = Inr False" and "eLabelOverride glob \<noteq> SWITCH_CFG_ON"
  shows "filter is_draw_call (TwoDDrawLabels_ac mc xp glob fs maxd (acId, ac)) = []"
  using TwoDDrawLabels_try_flag_off [OF assms, of mc xp fs maxd]
  by (auto simp add: TwoDDrawLabels_ac_def CATCH_AC_def)

lemma TwoDDrawLabels_ac_drawn:
  assumes "IsRendered ac = Inr True"
    and "ShallDrawLabel ac = Inr shall"
    and "shall \<or> eLabelOverride glob = SWITCH_CFG_ON"
    and "GetCameraDist ac = Inr d"
    and "d \<le> maxd"
    and "GetModel ac = Inr pCSLMdl"
    and "visible (ConvertTo2d mc fs glob (drawInfo_x ac) (drawInfo_y ac + vertLabelOfs pCSLMdl)
           (drawInfo_z ac))"
  shows "filter is_draw_call (TwoDDrawLabels_ac mc xp glob fs maxd (acId, ac)) \<noteq> []"
proof -
  from assms(7) obtain x y where
    "ConvertTo2d mc fs glob (drawInfo_x ac) (drawInfo_y ac + vertLabelOfs pCSLMdl) (drawInfo_z ac)
       = Converted True x y"
    by (cases "ConvertTo2d mc fs glob (drawInfo_x ac) (drawInfo_y ac + vertLabelOfs pCSLMdl)
           (drawInfo_z ac)") simp_all
  then have "TwoDDrawLabels_try mc xp glob fs maxd ac = Inr (draw_label xp ac x y)"
    using TwoDDrawLabels_try_processed [OF assms(1-6), of mc xp fs] by simp
  then show ?thesis
    by (simp add: TwoDDrawLabels_ac_def draw_label_draws)
qed

text \<open>
  C6, as amended. For every aircraft of the pass with its own label flag off: when the
  override mode is \<open>SWITCH_CFG_AUTO\<close> the pass emits no draw call for it; when the
  override mode is \<open>SWITCH_CFG_ON\<close> and label drawing is globally enabled, the pass does
  emit a draw call for it, the aircraft being one that a label is drawn for at all
  (rendered, not farther away than the maximum label distance, projected to a visible
  point). With label drawing globally disabled the pass draws nothing, also under
  \<open>SWITCH_CFG_ON\<close>.
\<close>

theorem own_label_flag_off:
  assumes "distinct (map fst (mapAc glob))"
    and "(acId, ac) \<in> set (mapAc glob)"
    and "ShallDrawLabel ac = Inr False"
  shows "(eLabelOverride glob = SWITCH_CFG_AUTO \<longrightarrow>
            filter is_draw_call (events_for (TwoDDrawLabels mc xp glob fs) acId) = []) \<and>
         (eLabelOverride glob = SWITCH_CFG_ON \<and> bDrawLabels glob \<and>
          IsRendered ac = Inr True \<and>
          GetCameraDist ac = Inr d \<and> d \<le> calc_maxLabelDist glob xp \<and>
          GetModel ac = Inr pCSLMdl \<and>
          visible (ConvertTo2d mc (frame (TwoDDrawLabels mc xp glob fs)) glob
                     (drawInfo_x ac) (drawInfo_y ac + vertLabelOfs pCSLMdl) (drawInfo_z ac)) \<longrightarrow>
            filter is_draw_call (events_for (TwoDDrawLabels mc xp glob fs) acId) \<noteq> [])"
proof (intro conjI impI)
  assume auto: "eLabelOverride glob = SWITCH_CFG_AUTO"
  show "filter is_draw_call (events_for (TwoDDrawLabels mc xp glob fs) acId) = []"
  proof (cases "bDrawLabels glob")
    case True
    with auto have "events_for (TwoDDrawLabels mc xp glob fs) acId =
        TwoDDrawLabels_ac mc xp glob (fst (read_matrices xp fs)) (calc_maxLabelDist glob xp) (acId, ac)"
      using assms(1,2) by (simp add: events_for_TwoDDrawLabels_on)
    then show ?thesis
      using auto assms(3) by (simp add: TwoDDrawLabels_ac_flag_off)
  next
    case False
    then show ?thesis
      by (simp add: events_for_TwoDDrawLabels_off)
  qed
next
  assume on: "eLabelOverride glob = SWITCH_CFG_ON \<and> bDrawLabels glob \<and>
          IsRendered ac = Inr True \<and>
          GetCameraDist ac = Inr d \<and> d \<le> calc_maxLabelDist glob xp \<and>
          GetModel ac = Inr pCSLMdl \<and>
          visible (ConvertTo2d mc (frame (TwoDDrawLabels mc xp glob fs)) glob
                     (drawInfo_x ac) (drawInfo_y ac + vertLabelOfs pCSLMdl) (drawInfo_z ac))"
  then have run: "bDrawLabels glob" "eLabelOverride glob \<noteq> SWITCH_CFG_OFF" by simp_all
  have ev: "events_for (TwoDDrawLabels mc xp glob fs) acId =
      TwoDDrawLabels_ac mc xp glob (fst (read_matrices xp fs)) (calc_maxLabelDist glob xp) (acId, ac)"
    using run assms(1,2) by (simp add: events_for_TwoDDrawLabels_on)
  have fr: "frame (TwoDDrawLabels mc xp glob fs) = fst (read_matrices xp fs)"
    using run by (simp add: TwoDDrawLabels_on)
  show "filter is_draw_call (events_for (TwoDDrawLabels mc xp glob fs) acId) \<noteq> []"
    unfolding ev
    by (rule TwoDDrawLabels_ac_drawn [where shall = False and d = d and pCSLMdl = pCSLMdl])
      (use on assms(3) fr in simp_all)
qed

lemma ex_calc_maxLabelDist:
  "calc_maxLabelDist (ex_glob\<lparr>eLabelOverride := ov, mapAc := ps\<rparr>) ex_xplane = 5556"
  by (simp add: calc_maxLabelDist_def ex_glob_def ex_xplane_def)

text \<open>
  The amended C6 at one rendered, near, visible aircraft with its own label flag off:
  no draw call without override, a draw call with the override \<open>SWITCH_CFG_ON\<close>.
\<close>

theorem own_label_flag_off_witness:
  "filter is_draw_call
     (events_for (TwoDDrawLabels ex_machine ex_xplane
        (ex_glob\<lparr>eLabelOverride := SWITCH_CFG_AUTO, mapAc := [(1, ex_aircraft)]\<rparr>) ex_frame) 1) = [] \<and>
   filter is_draw_call
     (events_for (TwoDDrawLabels ex_machine ex_xplane
        (ex_glob\<lparr>eLabelOverride := SWITCH_CFG_ON, mapAc := [(1, ex_aircraft)]\<rparr>) ex_frame) 1) \<noteq> []"
proof -
  let ?auto = "ex_glob\<lparr>eLabelOverride := SWITCH_CFG_AUTO, mapAc := [(1, ex_aircraft)]\<rparr>"
  let ?on = "ex_glob\<lparr>eLabelOverride := SWITCH_CFG_ON, mapAc := [(1, ex_aircraft)]\<rparr>"
  have flag: "ShallDrawLabel ex_aircraft = Inr False"
    by (simp add: ex_aircraft_def)
  have fr: "frame (TwoDDrawLabels ex_machine ex_xplane ?on ex_frame) = ex_frame_read"
    by (rule ex_frame_of_pass) (simp_all add: ex_glob_def)
  have vis: "visible (ConvertTo2d ex_machine ex_frame_read ?on (drawInfo_x ex_aircraft)
       (drawInfo_y ex_aircraft + vertLabelOfs (Some \<lparr>wtc = ''M''\<rparr>)) (drawInfo_z ex_aircraft))"
    by (simp add: ex_aircraft_def vertLabelOfs_def wtc_0_def ex_ConvertTo2d ex_glob_def)
  have 1: "filter is_draw_call (events_for (TwoDDrawLabels ex_machine ex_xplane ?auto ex_frame) 1) = []"
    using own_label_flag_off [where glob = ?auto and acId = 1 and ac = ex_aircraft
        and mc = ex_machine and xp = ex_xplane and fs = ex_frame] flag
    by simp
  have 2: "filter is_draw_call (events_for (TwoDDrawLabels ex_machine ex_xplane ?on ex_frame) 1) \<noteq> []"
    using own_label_flag_off [where glob = ?on and acId = 1 and ac = ex_aircraft
        and mc = ex_machine and xp = ex_xplane and fs = ex_frame and d = 1000 and pCSLMdl = "Some \<lparr>wtc = ''M''\<rparr>"]
      flag vis fr
    by (simp add: ex_calc_maxLabelDist) (simp add: ex_aircraft_def ex_glob_def)
  from 1 2 show ?thesis ..
qed

text \<open>
  C6 as stated fails where label drawing is globally disabled: for a rendered aircraft
  1000 m from the camera (the maximum label distance is 5556 m) that projects to a
  visible point, with its own label flag off and the override mode \<open>SWITCH_CFG_ON\<close>,
  the pass makes no draw call, and no call at all.
\<close>

theorem own_label_flag_off_counterexample:
  "\<not> bDrawLabels ex_glob_forced \<and>
   eLabelOverride ex_glob_forced = SWITCH_CFG_ON \<and>
   mapAc ex_glob_forced = [(1, ex_aircraft)] \<and>
   ShallDrawLabel ex_aircraft = Inr False \<and>
   IsRendered ex_aircraft = Inr True \<and>
   GetCameraDist ex_aircraft = Inr 1000 \<and>
   calc_maxLabelDist ex_glob_forced ex_xplane = 5556 \<and>
   GetModel ex_aircraft = Inr (Some \<lparr>wtc = ''M''\<rparr>) \<and>
   visible (ConvertTo2d ex_machine (fst (read_matrices ex_xplane ex_frame)) ex_glob_forced
     (drawInfo_x ex_aircraft) (drawInfo_y ex_aircraft + vertLabelOfs (Some \<lparr>wtc = ''M''\<rparr>))
     (drawInfo_z ex_aircraft)) \<and>
   filter is_draw_call (events_for (TwoDDrawLabels ex_machine ex_xplane ex_glob_forced ex_frame) 1) = [] \<and>
   all_events (TwoDDrawLabels ex_machine ex_xplane ex_glob_forced ex_frame) = []"
proof -
  have vis: "visible (ConvertTo2d ex_machine (fst (read_matrices ex_xplane ex_frame)) ex_glob_forced
     (drawInfo_x ex_aircraft) (drawInfo_y ex_aircraft + vertLabelOfs (Some \<lparr>wtc = ''M''\<rparr>))
     (drawInfo_z ex_aircraft))"
    unfolding ex_frame_read_def [symmetric]
    by (simp add: ex_aircraft_def vertLabelOfs_def wtc_0_def ex_ConvertTo2d ex_glob_forced_def
        ex_glob_def)
  have off: "TwoDDrawLabels ex_machine ex_xplane ex_glob_forced ex_frame =
      \<lparr>frame = ex_frame, setup_events = [], ac_events = []\<rparr>"
    by (rule TwoDDrawLabels_off) (simp add: ex_glob_forced_def)
  have dist: "calc_maxLabelDist ex_glob_forced ex_xplane = 5556"
    by (simp add: calc_maxLabelDist_def ex_glob_forced_def ex_glob_def ex_xplane_def)
  show ?thesis
    using vis dist
    by (simp add: off events_for_def all_events_def)
      (simp add: ex_glob_forced_def ex_aircraft_def)
qed

text \<open>
  C7. If the processing of one aircraft throws during a label pass, the exception is
  caught (\<open>CATCH_AC\<close>, modelled from the specification), no draw call is made for
  that aircraft, and the loop goes on: the aircraft before it and every aircraft after
  it are processed as usual, and the pass visits every entry of \<open>mapAc\<close>.
\<close>

theorem failure_of_one_aircraft_is_isolated:
  assumes "bDrawLabels glob" and "eLabelOverride glob \<noteq> SWITCH_CFG_OFF"
    and "mapAc glob = before @ (acId, ac) # after"
    and "TwoDDrawLabels_try mc xp glob (frame (TwoDDrawLabels mc xp glob fs))
           (calc_maxLabelDist glob xp) ac = Inl e"
  shows "ac_events (TwoDDrawLabels mc xp glob fs) =
           TwoDDrawLabels_loop mc xp glob (frame (TwoDDrawLabels mc xp glob fs))
             (calc_maxLabelDist glob xp) before @
           (acId, CATCH_AC acId e) #
           TwoDDrawLabels_loop mc xp glob (frame (TwoDDrawLabels mc xp glob fs))
             (calc_maxLabelDist glob xp) after \<and>
         filter is_draw_call (CATCH_AC acId e) = [] \<and>
         map fst (ac_events (TwoDDrawLabels mc xp glob fs)) = map fst (mapAc glob)"
proof -
  let ?fs = "fst (read_matrices xp fs)"
  let ?d = "calc_maxLabelDist glob xp"
  have fr: "frame (TwoDDrawLabels mc xp glob fs) = ?fs"
    using assms(1,2) by (simp add: TwoDDrawLabels_on)
  have ev: "ac_events (TwoDDrawLabels mc xp glob fs) = TwoDDrawLabels_loop mc xp glob ?fs ?d (mapAc glob)"
    using assms(1,2) by (simp add: TwoDDrawLabels_on)
  have "TwoDDrawLabels_ac mc xp glob ?fs ?d (acId, ac) = CATCH_AC acId e"
    using assms(4) by (simp add: fr TwoDDrawLabels_ac_def)
  then have "TwoDDrawLabels_loop mc xp glob ?fs ?d (mapAc glob) =
      TwoDDrawLabels_loop mc xp glob ?fs ?d before @ (acId, CATCH_AC acId e) #
      TwoDDrawLabels_loop mc xp glob ?fs ?d after"
    by (simp add: assms(3) TwoDDrawLabels_loop_append)
  moreover have "filter is_draw_call (CATCH_AC acId e) = []"
    by (simp add: CATCH_AC_def)
  moreover have "map fst (ac_events (TwoDDrawLabels mc xp glob fs)) = map fst (mapAc glob)"
    by (simp add: ev TwoDDrawLabels_loop_keys)
  ultimately show ?thesis
    by (simp add: ev fr)
qed

text \<open>
  C7 at three aircraft, the second with a model that cannot be read: the first and the
  third are drawn, the second is logged.
\<close>

theorem failure_of_one_aircraft_is_isolated_witness:
  "ac_events (TwoDDrawLabels ex_machine ex_xplane
      (ex_glob\<lparr>eLabelOverride := SWITCH_CFG_ON,
         mapAc := [(101, ex_aircraft), (102, ex_aircraft_broken), (103, ex_aircraft)]\<rparr>) ex_frame) =
     [(101, draw_label ex_xplane ex_aircraft 750 400),
      (102, [LOG_MSG_exception 102 (Exception ''no model'')]),
      (103, draw_label ex_xplane ex_aircraft 750 400)]"
proof -
  let ?g = "ex_glob\<lparr>eLabelOverride := SWITCH_CFG_ON,
         mapAc := [(101, ex_aircraft), (102, ex_aircraft_broken), (103, ex_aircraft)]\<rparr>"
  have on: "bDrawLabels ?g" "eLabelOverride ?g \<noteq> SWITCH_CFG_OFF"
    by (simp_all add: ex_glob_def)
  have fr: "frame (TwoDDrawLabels ex_machine ex_xplane ?g ex_frame) = ex_frame_read"
    using on by (rule ex_frame_of_pass)
  have split: "mapAc ?g = [(101, ex_aircraft)] @ (102, ex_aircraft_broken) # [(103, ex_aircraft)]"
    by simp
  have broken: "TwoDDrawLabels_try ex_machine ex_xplane ?g (frame (TwoDDrawLabels ex_machine ex_xplane ?g ex_frame))
      (calc_maxLabelDist ?g ex_xplane) ex_aircraft_broken = Inl (Exception ''no model'')"
    unfolding fr ex_calc_maxLabelDist
    by (simp add: TwoDDrawLabels_try_def ex_aircraft_broken_def ex_aircraft_def ex_glob_def)
  have ok: "TwoDDrawLabels_ac ex_machine ex_xplane ?g ex_frame_read 5556 (k, ex_aircraft) =
      draw_label ex_xplane ex_aircraft 750 400" for k
    by (simp add: TwoDDrawLabels_ac_def ex_try_drawn)
  from failure_of_one_aircraft_is_isolated [OF on split broken]
  show ?thesis
    unfolding fr ex_calc_maxLabelDist
    by (simp add: ok CATCH_AC_def)
qed

end
